theory Spec2Isabelle
  imports Main "HOL-Library.Word"
begin

text \<open>
  A model of the RabbitMQ client examples under \<^verbatim>\<open>RabbitMQ/examples/python\<close>: the consumer of
  \<^verbatim>\<open>basic_consumer.py\<close>, the publishers of \<^verbatim>\<open>basic_producer.py\<close> and \<^verbatim>\<open>topic_producer.py\<close>, and
  the helpers of \<^verbatim>\<open>logger.py\<close> they call.

  What lies outside the repository is a parameter of the model: the broker behind \<^verbatim>\<open>pika\<close>
  answers every call as a function \<open>broker\<close> of the calls made so far; \<^verbatim>\<open>json.loads\<close>,
  \<^verbatim>\<open>json.dumps\<close> and \<^verbatim>\<open>hash\<close> are function parameters; the clock is read into arguments; the
  level of the logger, which \<^verbatim>\<open>config.py\<close> reads from \<^verbatim>\<open>LOG_LEVEL\<close> (default \<^verbatim>\<open>INFO\<close>), is
  part of the world. Exceptions are values of type \<open>exn\<close>, which holds subclasses of Python's
  \<^verbatim>\<open>Exception\<close> only. Text is an Isabelle \<open>string\<close>; the values interpolated into log lines,
  the values (not the keys) of their \<^verbatim>\<open>extra\<close> dictionaries, \<^verbatim>\<open>time.sleep\<close> and the measured
  processing times are left out.
\<close>

section \<open>Exceptions, effects and the world outside\<close>

datatype exn_class =
    JSONDecodeError
  | UnicodeDecodeError
  | AttributeError
  | TypeError
  | RuntimeError
  | KeyError
  | Exception
  | OtherError

datatype exn = Exn (exn_class: exn_class) (exn_text: string)

fun class_name :: "exn_class \<Rightarrow> string" where
  "class_name JSONDecodeError = ''JSONDecodeError''"
| "class_name UnicodeDecodeError = ''UnicodeDecodeError''"
| "class_name AttributeError = ''AttributeError''"
| "class_name TypeError = ''TypeError''"
| "class_name RuntimeError = ''RuntimeError''"
| "class_name KeyError = ''KeyError''"
| "class_name Exception = ''Exception''"
| "class_name OtherError = ''OtherError''"

type_synonym byte = "8 word"

text \<open>\<^verbatim>\<open>pika.BasicProperties\<close>: every field is optional.\<close>

record properties =
  delivery_mode :: "int option"
  timestamp :: "int option"
  message_id :: "string option"

text \<open>The calls the clients make on a channel or a connection of \<^verbatim>\<open>pika\<close>.\<close>

datatype broker_call =
    BasicAck int
  | BasicNack int bool
  | BasicPublish string string string properties
  | StopConsuming
  | ChannelClose
  | ConnectionClose

text \<open>
  The broker side: \<open>reaction\<close> tells, from the calls made so far, whether the next call
  raises; \<open>is_closed\<close> is the connection's property of that name.
\<close>

record broker =
  reaction :: "broker_call list \<Rightarrow> broker_call \<Rightarrow> exn option"
  is_closed :: "broker_call list \<Rightarrow> bool"

datatype level = DEBUG | INFO | WARNING | ERROR | CRITICAL

text \<open>
  The world a call acts on: the calls made on the broker so far, the level the logger was set
  to, and the logging calls that returned, each with its level and message (what the logger
  emits of them is a matter of its level).
\<close>

record world =
  calls :: "broker_call list"
  log_level :: level
  logs :: "(level \<times> string) list"

type_synonym 'a eff = "world \<Rightarrow> (exn + 'a) \<times> world"

definition ret :: "'a \<Rightarrow> 'a eff" where
  "ret x w = (Inr x, w)"

definition raise :: "exn \<Rightarrow> 'a eff" where
  "raise e w = (Inl e, w)"

definition bind :: "'a eff \<Rightarrow> ('a \<Rightarrow> 'b eff) \<Rightarrow> 'b eff" where
  "bind m f w = (case m w of (Inl e, w') \<Rightarrow> (Inl e, w') | (Inr x, w') \<Rightarrow> f x w')"

text \<open>\<^verbatim>\<open>try: m except Exception as e: h(e)\<close>; every value of \<open>exn\<close> is an \<^verbatim>\<open>Exception\<close>.\<close>

definition try_except :: "'a eff \<Rightarrow> (exn \<Rightarrow> 'a eff) \<Rightarrow> 'a eff" where
  "try_except m h w = (case m w of (Inl e, w') \<Rightarrow> h e w' | (Inr x, w') \<Rightarrow> (Inr x, w'))"

definition lift :: "exn + 'a \<Rightarrow> 'a eff" where
  "lift r w = (r, w)"

text \<open>A call on the channel or connection: it is recorded, and raises when the broker says so.\<close>

definition call :: "broker \<Rightarrow> broker_call \<Rightarrow> unit eff" where
  "call B c w =
     (case reaction B (calls w) c of
        Some e \<Rightarrow> (Inl e, w\<lparr>calls := calls w @ [c]\<rparr>)
      | None \<Rightarrow> (Inr (), w\<lparr>calls := calls w @ [c]\<rparr>))"

definition connection_is_closed :: "broker \<Rightarrow> bool eff" where
  "connection_is_closed B w = (Inr (is_closed B (calls w)), w)"

section \<open>\<^verbatim>\<open>logger.py\<close>\<close>

fun level_no :: "level \<Rightarrow> nat" where
  "level_no DEBUG = 10"
| "level_no INFO = 20"
| "level_no WARNING = 30"
| "level_no ERROR = 40"
| "level_no CRITICAL = 50"

text \<open>\<^verbatim>\<open>Logger.isEnabledFor\<close>\<close>

definition is_enabled_for :: "level \<Rightarrow> world \<Rightarrow> bool" where
  "is_enabled_for l w = (level_no (log_level w) \<le> level_no l)"

text \<open>
  The keys \<^verbatim>\<open>Logger.makeRecord\<close> refuses in an \<^verbatim>\<open>extra\<close> dictionary: \<^verbatim>\<open>message\<close>, \<^verbatim>\<open>asctime\<close> and
  the attributes of a \<^verbatim>\<open>LogRecord\<close>.
\<close>

definition reserved_keys :: "string list" where
  "reserved_keys =
     [''message'', ''asctime'', ''name'', ''msg'', ''args'', ''levelname'', ''levelno'',
      ''pathname'', ''filename'', ''module'', ''exc_info'', ''exc_text'', ''stack_info'',
      ''lineno'', ''funcName'', ''created'', ''msecs'', ''relativeCreated'', ''thread'',
      ''threadName'', ''processName'', ''process'', ''taskName'']"

text \<open>
  \<^verbatim>\<open>logger.info(message, extra=extra)\<close> and its siblings, with the keys of \<^verbatim>\<open>extra\<close>. When the
  level is enabled the library builds the record and raises \<^verbatim>\<open>KeyError\<close> at the first reserved
  key; when it is not, the call returns at once.
\<close>

definition logger_log :: "level \<Rightarrow> string \<Rightarrow> string list \<Rightarrow> unit eff" where
  "logger_log l message extra w =
     (if is_enabled_for l w then
        (case filter (\<lambda>k. k \<in> set reserved_keys) extra of
           k # ks \<Rightarrow> (Inl (Exn KeyError (''Attempt to overwrite '' @ k @ '' in LogRecord'')), w)
         | [] \<Rightarrow> (Inr (), w\<lparr>logs := logs w @ [(l, message)]\<rparr>))
      else (Inr (), w\<lparr>logs := logs w @ [(l, message)]\<rparr>))"

text \<open>The convenience functions of \<^verbatim>\<open>logger.py\<close>; an empty \<^verbatim>\<open>extra\<close> is not passed on.\<close>

definition info :: "string \<Rightarrow> string list \<Rightarrow> unit eff" where
  "info message extra = logger_log INFO message extra"

definition warning :: "string \<Rightarrow> string list \<Rightarrow> unit eff" where
  "warning message extra = logger_log WARNING message extra"

definition error :: "string \<Rightarrow> string list \<Rightarrow> unit eff" where
  "error message extra = logger_log ERROR message extra"

definition log_message_sent :: "string \<Rightarrow> string \<Rightarrow> unit eff" where
  "log_message_sent queue msg_id = info ''Message sent'' [''queue'', ''message_id'', ''size'']"

definition log_message_received :: "string \<Rightarrow> string \<Rightarrow> unit eff" where
  "log_message_received queue msg_id = info ''Message received'' [''queue'', ''message_id'']"

definition log_message_processed :: "string \<Rightarrow> unit eff" where
  "log_message_processed msg_id = info ''Message processed'' [''message_id'', ''duration'']"

text \<open>
  \<^verbatim>\<open>def log_message_failed(message_id, error): error(f"Message processing failed", {...})\<close>.
  The second parameter is named \<^verbatim>\<open>error\<close>, so inside the body that name is the exception
  passed in and not the module's function \<^verbatim>\<open>error\<close>: the call applies an exception object
  to arguments, which raises \<^verbatim>\<open>TypeError\<close> (the object is not callable). Nothing is logged.
\<close>

definition log_message_failed :: "string \<Rightarrow> exn \<Rightarrow> unit eff" where
  "log_message_failed msg_id err =
     raise (Exn TypeError (class_name (exn_class err) @ '' object is not callable''))"

section \<open>Payloads\<close>

text \<open>
  The values \<^verbatim>\<open>json.loads\<close> returns. A number is carried by its literal; an object is the
  dictionary as an association list, looked up with \<open>map_of\<close>.
\<close>

datatype json =
    JNull
  | JBool bool
  | JNum string
  | JStr string
  | JArr "json list"
  | JObj "(string \<times> json) list"

definition in_range :: "byte \<Rightarrow> byte \<Rightarrow> byte \<Rightarrow> bool" where
  "in_range lo hi b = (lo \<le> b \<and> b \<le> hi)"

definition cont :: "byte \<Rightarrow> bool" where
  "cont b = in_range 0x80 0xBF b"

text \<open>
  Whether \<^verbatim>\<open>body.decode('utf-8')\<close> returns: the strict decoder accepts the shortest encoding
  of every code point up to \<^verbatim>\<open>U+10FFFF\<close> except the surrogates.
\<close>

fun utf8_valid :: "byte list \<Rightarrow> bool" where
  "utf8_valid [] = True"
| "utf8_valid (b # bs) =
     (if b \<le> 0x7F then utf8_valid bs
      else if in_range 0xC2 0xDF b then
        (case bs of c1 # r \<Rightarrow> cont c1 \<and> utf8_valid r | _ \<Rightarrow> False)
      else if b = 0xE0 then
        (case bs of c1 # c2 # r \<Rightarrow> in_range 0xA0 0xBF c1 \<and> cont c2 \<and> utf8_valid r | _ \<Rightarrow> False)
      else if b = 0xED then
        (case bs of c1 # c2 # r \<Rightarrow> in_range 0x80 0x9F c1 \<and> cont c2 \<and> utf8_valid r | _ \<Rightarrow> False)
      else if in_range 0xE1 0xEF b then
        (case bs of c1 # c2 # r \<Rightarrow> cont c1 \<and> cont c2 \<and> utf8_valid r | _ \<Rightarrow> False)
      else if b = 0xF0 then
        (case bs of c1 # c2 # c3 # r \<Rightarrow>
           in_range 0x90 0xBF c1 \<and> cont c2 \<and> cont c3 \<and> utf8_valid r | _ \<Rightarrow> False)
      else if in_range 0xF1 0xF3 b then
        (case bs of c1 # c2 # c3 # r \<Rightarrow> cont c1 \<and> cont c2 \<and> cont c3 \<and> utf8_valid r | _ \<Rightarrow> False)
      else if b = 0xF4 then
        (case bs of c1 # c2 # c3 # r \<Rightarrow>
           in_range 0x80 0x8F c1 \<and> cont c2 \<and> cont c3 \<and> utf8_valid r | _ \<Rightarrow> False)
      else False)"

text \<open>
  \<^verbatim>\<open>json.loads(body.decode('utf-8'))\<close>. The parameter \<open>loads\<close> is \<^verbatim>\<open>json.loads\<close> on the text
  that a valid body encodes: it returns a value or raises.
\<close>

definition decode_payload :: "(byte list \<Rightarrow> exn + json) \<Rightarrow> byte list \<Rightarrow> json eff" where
  "decode_payload loads body =
     (if utf8_valid body then lift (loads body)
      else raise (Exn UnicodeDecodeError ''invalid utf-8''))"

text \<open>\<^verbatim>\<open>d.get(key, default)\<close>: only a dictionary has the method.\<close>

definition dict_get :: "json \<Rightarrow> string \<Rightarrow> json \<Rightarrow> json eff" where
  "dict_get d key dflt =
     (case d of
        JObj kvs \<Rightarrow> ret (case map_of kvs key of Some v \<Rightarrow> v | None \<Rightarrow> dflt)
      | _ \<Rightarrow> raise (Exn AttributeError ''object has no attribute get''))"

text \<open>Looking a value up as a dictionary key hashes it: lists and dictionaries cannot be.\<close>

definition hash_key :: "json \<Rightarrow> unit eff" where
  "hash_key v =
     (case v of
        JArr xs \<Rightarrow> raise (Exn TypeError ''unhashable type: list'')
      | JObj kvs \<Rightarrow> raise (Exn TypeError ''unhashable type: dict'')
      | _ \<Rightarrow> ret ())"

text \<open>\<^verbatim>\<open>str.lower\<close> on the code points an Isabelle character can hold (below 256).\<close>

definition lower_char :: "char \<Rightarrow> char" where
  "lower_char c =
     (let n = (of_char c :: nat) in
      if (65 \<le> n \<and> n \<le> 90) \<or> (192 \<le> n \<and> n \<le> 222 \<and> n \<noteq> 215)
      then char_of (n + 32) else c)"

definition str_lower :: "json \<Rightarrow> string eff" where
  "str_lower v =
     (case v of
        JStr s \<Rightarrow> ret (map lower_char s)
      | _ \<Rightarrow> raise (Exn AttributeError ''object has no attribute lower''))"

definition str_capitalize :: "json \<Rightarrow> unit eff" where
  "str_capitalize v =
     (case v of
        JStr s \<Rightarrow> ret ()
      | _ \<Rightarrow> raise (Exn AttributeError ''object has no attribute capitalize''))"

fun is_prefix :: "string \<Rightarrow> string \<Rightarrow> bool" where
  "is_prefix [] ys = True"
| "is_prefix (x # xs) [] = False"
| "is_prefix (x # xs) (y # ys) = (x = y \<and> is_prefix xs ys)"

text \<open>\<^verbatim>\<open>needle in text\<close> on strings.\<close>

fun str_in :: "string \<Rightarrow> string \<Rightarrow> bool" where
  "str_in needle [] = (needle = [])"
| "str_in needle (c # cs) = (is_prefix needle (c # cs) \<or> str_in needle cs)"

text \<open>\<^verbatim>\<open>str(n)\<close> for an integer.\<close>

definition digit_char :: "int \<Rightarrow> char" where
  "digit_char d = char_of (48 + d)"

function str_digits :: "int \<Rightarrow> string" where
  "str_digits n =
     (if n < 10 then [digit_char n] else str_digits (n div 10) @ [digit_char (n mod 10)])"
  by pat_completeness auto
termination
  by (relation "measure nat") auto

declare str_digits.simps [simp del]

definition str_int :: "int \<Rightarrow> string" where
  "str_int i = (if i < 0 then CHR ''-'' # str_digits (- i) else str_digits i)"

section \<open>\<^verbatim>\<open>basic_consumer.py\<close>\<close>

datatype conn = Conn
datatype chan = Chan

record client =
  connection :: "conn option"
  channel :: "chan option"

record basic_client = client +
  queue_name :: string

record consumer = basic_client +
  message_count :: int
  running :: bool

text \<open>The \<^verbatim>\<open>method\<close> argument of the callback (\<^verbatim>\<open>Basic.Deliver\<close>).\<close>

record deliver =
  delivery_tag :: int
  redelivered :: bool

text \<open>\<^verbatim>\<open>BasicConsumer.__init__\<close>, with the queue name of \<^verbatim>\<open>config.QUEUES['basic']\<close>.\<close>

definition init_consumer :: consumer where
  "init_consumer =
     \<lparr>connection = None, channel = None, queue_name = ''python_basic_queue'',
      message_count = 0, running = True\<rparr>"

text \<open>
  \<^verbatim>\<open>BasicConsumer.process_message\<close>. Its first logging call passes an \<^verbatim>\<open>extra\<close> dictionary with
  the keys \<^verbatim>\<open>id\<close> and \<^verbatim>\<open>message\<close>, of which the second is reserved. The test for the simulated
  fault reads \<^verbatim>\<open>self.message_count\<close>, the number of deliveries \<^verbatim>\<open>handle_message\<close> has counted
  so far.
\<close>

definition process_message :: "consumer \<Rightarrow> json \<Rightarrow> unit eff" where
  "process_message self message_data =
     bind (dict_get message_data ''type'' (JStr ''unknown'')) (\<lambda>message_type.
     bind (hash_key message_type) (\<lambda>_.
     bind (info ''Processing message'' [''id'', ''message'']) (\<lambda>_.
     bind (if message_type = JStr ''system'' then
             bind (dict_get message_data ''message'' (JStr [])) (\<lambda>m.
             bind (str_lower m) (\<lambda>l. ret (str_in ''backup'' l)))
           else ret False) (\<lambda>backup.
     bind (if backup \<and> message_count self mod 5 = 0
           then raise (Exn Exception ''Simulated backup failure'') else ret ()) (\<lambda>_.
     bind (str_capitalize message_type) (\<lambda>_.
     info ''processed'' [''id'', ''result'']))))))"

text \<open>\<^verbatim>\<open>properties.message_id or f"unknown-{self.message_count}"\<close>\<close>

definition received_id :: "consumer \<Rightarrow> properties \<Rightarrow> string" where
  "received_id self props =
     (case message_id props of
        Some m \<Rightarrow> if m = [] then ''unknown-'' @ str_int (message_count self) else m
      | None \<Rightarrow> ''unknown-'' @ str_int (message_count self))"

text \<open>The body of the \<^verbatim>\<open>try\<close> statement of \<^verbatim>\<open>handle_message\<close>.\<close>

definition handle_body ::
  "(byte list \<Rightarrow> exn + json) \<Rightarrow> broker \<Rightarrow> consumer \<Rightarrow> deliver \<Rightarrow> string \<Rightarrow> byte list \<Rightarrow> unit eff"
where
  "handle_body loads B self method msg_id body =
     bind (decode_payload loads body) (\<lambda>message_data.
     bind (log_message_received (queue_name self) msg_id) (\<lambda>_.
     bind (dict_get message_data ''type'' JNull) (\<lambda>_.
     bind (info ''Message received'' [''message_id'', ''type'', ''timestamp'', ''delivery_tag'']) (\<lambda>_.
     bind (process_message self message_data) (\<lambda>_.
     bind (call B (BasicAck (delivery_tag method))) (\<lambda>_.
     bind (log_message_processed msg_id) (\<lambda>_.
     info ''Message processed successfully'' [''message_id'', ''processing_time''])))))))"

text \<open>The two \<^verbatim>\<open>except\<close> clauses of \<^verbatim>\<open>handle_message\<close>, in their order.\<close>

definition handle_except :: "broker \<Rightarrow> deliver \<Rightarrow> string \<Rightarrow> exn \<Rightarrow> unit eff" where
  "handle_except B method msg_id e =
     (if exn_class e = JSONDecodeError then
        bind (error (''Failed to parse JSON message: '' @ exn_text e) [''message_id'']) (\<lambda>_.
        call B (BasicNack (delivery_tag method) False))
      else
        bind (error (''Failed to process message: '' @ exn_text e) [''message_id'']) (\<lambda>_.
        bind (log_message_failed msg_id e) (\<lambda>_.
        if redelivered method then
          bind (warning ''Message redelivered, rejecting without requeue'' [''message_id'']) (\<lambda>_.
          call B (BasicNack (delivery_tag method) False))
        else call B (BasicNack (delivery_tag method) True))))"

text \<open>
  \<^verbatim>\<open>BasicConsumer.handle_message\<close>: the consumer with its counter advanced, and what the call
  does to the world: it returns (\<open>Inr\<close>) or raises (\<open>Inl\<close>).
\<close>

definition handle_message ::
  "(byte list \<Rightarrow> exn + json) \<Rightarrow> broker \<Rightarrow> consumer \<Rightarrow> deliver \<Rightarrow> properties \<Rightarrow> byte list
     \<Rightarrow> world \<Rightarrow> consumer \<times> (exn + unit) \<times> world"
where
  "handle_message loads B self method props body w =
     (let self' = self\<lparr>message_count := message_count self + 1\<rparr>;
          msg_id = received_id self' props
      in (self',
          try_except (handle_body loads B self' method msg_id body)
                     (handle_except B method msg_id) w))"

text \<open>
  A delivery as the broker hands it to the callback of \<^verbatim>\<open>start_consuming\<close>, which passes it on
  to \<^verbatim>\<open>handle_message\<close>; \<open>after_delivery\<close> is the consumer and the world once that call is
  over, whether it returned or raised.
\<close>

record delivery =
  d_method :: deliver
  d_properties :: properties
  d_body :: "byte list"

definition after_delivery ::
  "(byte list \<Rightarrow> exn + json) \<Rightarrow> broker \<Rightarrow> consumer \<times> world \<Rightarrow> delivery \<Rightarrow> consumer \<times> world"
where
  "after_delivery loads B cw d =
     (case handle_message loads B (fst cw) (d_method d) (d_properties d) (d_body d) (snd cw) of
        (self', r, w') \<Rightarrow> (self', w'))"

text \<open>\<^verbatim>\<open>BasicConsumer.get_stats\<close>: the three entries of the dictionary it returns.\<close>

record stats =
  messages_processed :: int
  queue :: string
  uptime :: string

definition get_stats :: "consumer \<Rightarrow> stats" where
  "get_stats self =
     \<lparr>messages_processed = message_count self, queue = queue_name self, uptime = ''running''\<rparr>"

text \<open>\<^verbatim>\<open>BasicConsumer.stop\<close>\<close>

definition stop :: "broker \<Rightarrow> consumer \<Rightarrow> world \<Rightarrow> consumer \<times> (exn + unit) \<times> world" where
  "stop B self w =
     (let self' = self\<lparr>running := False\<rparr>
      in (self', (if channel self' \<noteq> None then call B StopConsuming else ret ()) w))"

text \<open>\<^verbatim>\<open>BasicConsumer.close\<close>\<close>

definition consumer_close :: "broker \<Rightarrow> consumer \<Rightarrow> unit eff" where
  "consumer_close B self =
     try_except
       (bind (if channel self \<noteq> None then call B StopConsuming else ret ()) (\<lambda>_.
        bind (if connection self \<noteq> None
              then bind (connection_is_closed B) (\<lambda>closed.
                     if \<not> closed then call B ConnectionClose else ret ())
              else ret ()) (\<lambda>_.
        info ''Connection closed successfully'' [])))
       (\<lambda>e. error (''Error closing connection: '' @ exn_text e) [])"

text \<open>The terminal outcomes of the specification, read off the calls made for a delivery tag.\<close>

datatype outcome = Ack | NackRequeue | NackDiscard

fun outcomes :: "int \<Rightarrow> broker_call list \<Rightarrow> outcome list" where
  "outcomes tag [] = []"
| "outcomes tag (BasicAck t # cs) = (if t = tag then Ack # outcomes tag cs else outcomes tag cs)"
| "outcomes tag (BasicNack t rq # cs) =
     (if t = tag then (if rq then NackRequeue else NackDiscard) # outcomes tag cs
      else outcomes tag cs)"
| "outcomes tag (c # cs) = outcomes tag cs"

text \<open>The calls a step added to the world.\<close>

definition new_calls :: "world \<Rightarrow> world \<Rightarrow> broker_call list" where
  "new_calls w w' = drop (length (calls w)) (calls w')"

section \<open>\<^verbatim>\<open>basic_producer.py\<close> and \<^verbatim>\<open>topic_producer.py\<close>\<close>

record topic_producer = client +
  exchange_name :: string
  exchange_type :: string

text \<open>
  \<^verbatim>\<open>message_id or f"{prefix}-{int(time.time())}-{hash(message_body) % 1000}"\<close>, with the
  reading \<open>now\<close> of the clock.
\<close>

definition publish_id ::
  "string \<Rightarrow> (string \<Rightarrow> int) \<Rightarrow> int \<Rightarrow> string \<Rightarrow> string option \<Rightarrow> string" where
  "publish_id prefix hash now message_body msg_id =
     (let generated = prefix @ ''-'' @ str_int now @ ''-'' @ str_int (hash message_body mod 1000)
      in case msg_id of
           Some m \<Rightarrow> if m = [] then generated else m
         | None \<Rightarrow> generated)"

text \<open>
  \<^verbatim>\<open>pika.BasicProperties(delivery_mode=2, timestamp=int(time.time()), message_id=...)\<close> as
  both producers build it; \<open>now\<close> and \<open>now'\<close> are what \<^verbatim>\<open>int(time.time())\<close> gives for the
  timestamp and for the generated identifier.
\<close>

definition new_properties ::
  "string \<Rightarrow> (string \<Rightarrow> int) \<Rightarrow> int \<Rightarrow> int \<Rightarrow> string \<Rightarrow> string option \<Rightarrow> properties" where
  "new_properties prefix hash now now' message_body msg_id =
     \<lparr>delivery_mode = Some 2, timestamp = Some now,
      message_id = Some (publish_id prefix hash now' message_body msg_id)\<rparr>"

text \<open>
  \<^verbatim>\<open>BasicProducer.send_message\<close>, publishing to the default exchange with the queue's
  name as routing key.
\<close>

definition send_message ::
  "(json \<Rightarrow> exn + string) \<Rightarrow> (string \<Rightarrow> int) \<Rightarrow> broker \<Rightarrow> ('a basic_client_scheme)
     \<Rightarrow> int \<Rightarrow> int \<Rightarrow> json \<Rightarrow> string option \<Rightarrow> unit eff"
where
  "send_message dumps hash B self now now' message msg_id =
     (if channel self = None then raise (Exn RuntimeError ''Not connected. Call connect() first.'')
      else
        try_except
          (bind (lift (dumps message)) (\<lambda>message_body.
           let props = new_properties ''msg'' hash now now' message_body msg_id
           in bind (call B (BasicPublish [] (queue_name self) message_body props)) (\<lambda>_.
              bind (log_message_sent (queue_name self) (the (message_id props))) (\<lambda>_.
              info ''Message sent'' []))))
          (\<lambda>e. bind (error (''Failed to send message: '' @ exn_text e) []) (\<lambda>_. raise e)))"

text \<open>\<^verbatim>\<open>TopicProducer.send_message\<close>\<close>

definition topic_send_message ::
  "(json \<Rightarrow> exn + string) \<Rightarrow> (string \<Rightarrow> int) \<Rightarrow> broker \<Rightarrow> topic_producer
     \<Rightarrow> int \<Rightarrow> int \<Rightarrow> string \<Rightarrow> json \<Rightarrow> string option \<Rightarrow> unit eff"
where
  "topic_send_message dumps hash B self now now' routing_key message msg_id =
     (if channel self = None then raise (Exn RuntimeError ''Not connected. Call connect() first.'')
      else
        try_except
          (bind (lift (dumps message)) (\<lambda>message_body.
           let props = new_properties ''topic'' hash now now' message_body msg_id
           in bind (call B (BasicPublish (exchange_name self) routing_key message_body props)) (\<lambda>_.
              bind (log_message_sent routing_key (the (message_id props))) (\<lambda>_.
              info ''Message sent to topic exchange'' [''routing_key'', ''message_id'']))))
          (\<lambda>e. bind (error (''Failed to send message: '' @ exn_text e) []) (\<lambda>_. raise e)))"

text \<open>
  The wire properties of a published message: persistent, stamped with the reading \<open>now\<close> of
  the clock, and identified by a non-empty string, which is the caller's when the caller gave
  a non-empty one. \<open>published\<close> collects the properties of the publish calls among some calls.
\<close>

definition wire_properties_ok :: "int \<Rightarrow> string option \<Rightarrow> properties \<Rightarrow> bool" where
  "wire_properties_ok now msg_id p =
     (delivery_mode p = Some 2 \<and> timestamp p = Some now \<and>
      (case message_id p of
         None \<Rightarrow> False
       | Some m \<Rightarrow> m \<noteq> [] \<and> (case msg_id of None \<Rightarrow> True | Some g \<Rightarrow> g = [] \<or> m = g)))"

fun published :: "broker_call list \<Rightarrow> properties list" where
  "published [] = []"
| "published (BasicPublish exchange routing_key message_body p # cs) = p # published cs"
| "published (c # cs) = published cs"

text \<open>\<^verbatim>\<open>BasicProducer.close\<close> and \<^verbatim>\<open>TopicProducer.close\<close>, which are the same text.\<close>

definition producer_close :: "broker \<Rightarrow> ('a client_scheme) \<Rightarrow> unit eff" where
  "producer_close B self =
     try_except
       (bind (if channel self \<noteq> None then call B ChannelClose else ret ()) (\<lambda>_.
        bind (if connection self \<noteq> None
              then bind (connection_is_closed B) (\<lambda>closed.
                     if \<not> closed then call B ConnectionClose else ret ())
              else ret ()) (\<lambda>_.
        info ''Connection closed successfully'' [])))
       (\<lambda>e. error (''Error closing connection: '' @ exn_text e) [])"

section \<open>Routing-key matcher\<close>

text \<open>
  The repository publishes to a topic exchange (\<^verbatim>\<open>topic_producer.py\<close>) and leaves the matching
  of routing keys against binding patterns to the broker: no matcher is part of the sources.
  The matcher below is therefore taken from the specification, section 4.2.
\<close>

datatype segment = Lit string | Star | Hash

text \<open>
  Modelled from the spec: the splitting of a routing key on \<^verbatim>\<open>.\<close>, which the sources do not
  contain. Between two dots, before the first and after the last there is one segment each
  (possibly empty).
\<close>

fun split_segments :: "string \<Rightarrow> string list" where
  "split_segments [] = [[]]"
| "split_segments (c # cs) =
     (if c = CHR ''.'' then [] # split_segments cs
      else (case split_segments cs of
              [] \<Rightarrow> [[c]]
            | s # ss \<Rightarrow> (c # s) # ss))"

text \<open>
  Modelled from the spec: the segments of a key. The empty key has no segment, so that it
  ``never matches any pattern requiring at least one literal segment'' (section 4.2).
\<close>

definition split_key :: "string \<Rightarrow> string list" where
  "split_key key = (if key = [] then [] else split_segments key)"

text \<open>
  Modelled from the spec: the walk of section 4.2 over pattern and key segments. A literal
  consumes one equal segment, \<open>Star\<close> consumes exactly one segment, \<open>Hash\<close> first tries to
  consume nothing and then extends by one segment at a time; the match succeeds when pattern
  and key are both used up.
\<close>

fun match_segments :: "segment list \<Rightarrow> string list \<Rightarrow> bool" where
  "match_segments [] ks = (ks = [])"
| "match_segments (Lit s # p) [] = False"
| "match_segments (Lit s # p) (k # ks) = (s = k \<and> match_segments p ks)"
| "match_segments (Star # p) [] = False"
| "match_segments (Star # p) (k # ks) = match_segments p ks"
| "match_segments (Hash # p) [] = match_segments p []"
| "match_segments (Hash # p) (k # ks) =
     (match_segments p (k # ks) \<or> match_segments (Hash # p) ks)"

text \<open>Modelled from the spec: \<^verbatim>\<open>RoutingKeyMatcher.matches(pattern, key)\<close>, which the sources do
  not contain.\<close>

definition matches :: "segment list \<Rightarrow> string \<Rightarrow> bool" where
  "matches pattern key = match_segments pattern (split_key key)"

fun is_literal :: "segment \<Rightarrow> bool" where
  "is_literal (Lit s) = True"
| "is_literal Star = False"
| "is_literal Hash = False"

definition literal_only :: "segment list \<Rightarrow> bool" where
  "literal_only pattern = list_all is_literal pattern"

section \<open>Sample inputs\<close>

text \<open>A broker on which no call raises; its connection is closed once it has been closed.\<close>

definition reliable_broker :: broker where
  "reliable_broker =
     \<lparr>reaction = (\<lambda>cs c. None), is_closed = (\<lambda>cs. ConnectionClose \<in> set cs)\<rparr>"

text \<open>A broker that is gone: every call on the channel or the connection raises.\<close>

definition lost_broker :: broker where
  "lost_broker =
     \<lparr>reaction = (\<lambda>cs c. Some (Exn OtherError ''Connection lost'')), is_closed = (\<lambda>cs. False)\<rparr>"

text \<open>A world in which nothing has happened yet, with the logger at the default level
  \<^verbatim>\<open>INFO\<close>, and one started with \<^verbatim>\<open>LOG_LEVEL=WARNING\<close>.\<close>

definition empty_world :: world where
  "empty_world = \<lparr>calls = [], log_level = INFO, logs = []\<rparr>"

definition quiet_world :: world where
  "quiet_world = \<lparr>calls = [], log_level = WARNING, logs = []\<rparr>"

text \<open>A broker that refuses what is published to the default exchange, and nothing else.\<close>

definition refusing_broker :: broker where
  "refusing_broker =
     \<lparr>reaction = (\<lambda>cs c. case c of
                    BasicPublish exchange routing_key message_body p \<Rightarrow>
                      if exchange = [] then Some (Exn OtherError ''Publish refused'') else None
                  | _ \<Rightarrow> None),
      is_closed = (\<lambda>cs. ConnectionClose \<in> set cs)\<rparr>"

definition connected_consumer :: consumer where
  "connected_consumer = init_consumer\<lparr>connection := Some Conn, channel := Some Chan\<rparr>"

text \<open>\<^verbatim>\<open>BasicProducer\<close> and \<^verbatim>\<open>TopicProducer\<close> after \<^verbatim>\<open>connect()\<close>, with the names of \<^verbatim>\<open>config.py\<close>.\<close>

definition connected_producer :: basic_client where
  "connected_producer =
     \<lparr>connection = Some Conn, channel = Some Chan, queue_name = ''python_basic_queue''\<rparr>"

definition connected_topic_producer :: topic_producer where
  "connected_topic_producer =
     \<lparr>connection = Some Conn, channel = Some Chan,
      exchange_name = ''python_topic_exchange'', exchange_type = ''topic''\<rparr>"

text \<open>The last message of the batch \<^verbatim>\<open>basic_producer.py\<close> sends, reduced to the two keys
  \<^verbatim>\<open>process_message\<close> reads, as bytes on the wire and as the dictionary \<^verbatim>\<open>json.loads\<close> returns.\<close>

definition backup_text :: string where
  \<open>backup_text = ''{"type": "system", "message": "Run daily backup"}''\<close>

definition backup_body :: "byte list" where
  "backup_body = map of_char backup_text"

definition backup_message :: json where
  "backup_message = JObj [(''type'', JStr ''system''), (''message'', JStr ''Run daily backup'')]"

definition greeting_text :: string where
  \<open>greeting_text = ''{"type": "greeting", "message": "Hello"}''\<close>

definition greeting_body :: "byte list" where
  "greeting_body = map of_char greeting_text"

definition greeting_message :: json where
  "greeting_message = JObj [(''type'', JStr ''greeting''), (''message'', JStr ''Hello'')]"

text \<open>A stand-in for \<^verbatim>\<open>json.loads\<close> that knows these two documents and rejects every other
  text, and one for \<^verbatim>\<open>json.dumps\<close> in the other direction.\<close>

definition loads_sample :: "byte list \<Rightarrow> exn + json" where
  "loads_sample body =
     (if body = backup_body then Inr backup_message
      else if body = greeting_body then Inr greeting_message
      else Inl (Exn JSONDecodeError ''Expecting value''))"

definition dumps_sample :: "json \<Rightarrow> exn + string" where
  "dumps_sample message =
     (if message = backup_message then Inr backup_text
      else if message = greeting_message then Inr greeting_text
      else Inl (Exn TypeError ''Object is not JSON serializable''))"

definition hash_sample :: "string \<Rightarrow> int" where
  "hash_sample s = int (length s) * 7919 - 100000"

definition no_properties :: properties where
  "no_properties = \<lparr>delivery_mode = None, timestamp = None, message_id = None\<rparr>"

definition first_delivery :: "int \<Rightarrow> deliver" where
  "first_delivery tag = \<lparr>delivery_tag = tag, redelivered = False\<rparr>"

definition second_delivery :: "int \<Rightarrow> deliver" where
  "second_delivery tag = \<lparr>delivery_tag = tag, redelivered = True\<rparr>"

definition greeting_delivery :: "int \<Rightarrow> delivery" where
  "greeting_delivery tag =
     \<lparr>d_method = first_delivery tag, d_properties = no_properties, d_body = greeting_body\<rparr>"

definition backup_delivery :: "int \<Rightarrow> delivery" where
  "backup_delivery tag =
     \<lparr>d_method = first_delivery tag, d_properties = no_properties, d_body = backup_body\<rparr>"

section \<open>Lemmas on the effects\<close>

lemmas eff_defs = ret_def raise_def bind_def try_except_def lift_def call_def
  connection_is_closed_def info_def warning_def error_def logger_log_def reserved_keys_def

text \<open>A logging call whose \<^verbatim>\<open>extra\<close> has no reserved key returns at every level.\<close>

lemma logger_log_benign:
  "filter (\<lambda>k. k \<in> set reserved_keys) extra = [] \<Longrightarrow>
   logger_log l message extra w = (Inr (), w\<lparr>logs := logs w @ [(l, message)]\<rparr>)"
  by (simp add: logger_log_def)

lemma process_message_no_calls: "calls (snd (process_message self m w)) = calls w"
  by (simp add: process_message_def dict_get_def hash_key_def str_lower_def str_capitalize_def
      eff_defs split: json.splits option.splits)

lemma process_message_raises:
  "process_message self m v = (Inl e, v') \<Longrightarrow> exn_class e \<noteq> JSONDecodeError"
  by (auto simp add: process_message_def dict_get_def hash_key_def str_lower_def
      str_capitalize_def eff_defs split: json.splits option.splits if_splits)

text \<open>
  The second \<^verbatim>\<open>except\<close> clause never reaches its \<^verbatim>\<open>basic_nack\<close>: \<open>log_message_failed\<close> raises
  first, and the exception leaves \<open>handle_message\<close>.
\<close>

lemma handle_except_generic:
  "exn_class e \<noteq> JSONDecodeError \<Longrightarrow>
   handle_except B method msg_id e w =
     (Inl (Exn TypeError (class_name (exn_class e) @ '' object is not callable'')),
      w\<lparr>logs := logs w @ [(ERROR, ''Failed to process message: '' @ exn_text e)]\<rparr>)"
  by (simp add: handle_except_def log_message_failed_def eff_defs)

lemma handle_except_json:
  "exn_class e = JSONDecodeError \<Longrightarrow>
   handle_except B method msg_id e w =
     call B (BasicNack (delivery_tag method) False)
       (w\<lparr>logs := logs w @ [(ERROR, ''Failed to parse JSON message: '' @ exn_text e)]\<rparr>)"
  by (simp add: handle_except_def eff_defs)

lemma handle_except_calls:
  "calls (snd (handle_except B method msg_id e w)) =
     (if exn_class e = JSONDecodeError then calls w @ [BasicNack (delivery_tag method) False]
      else calls w)"
  by (simp add: handle_except_generic handle_except_json call_def split: option.splits)

lemma handle_body_calls:
  "handle_body loads B self method msg_id body w = (r, w') \<Longrightarrow>
   calls w' = calls w \<or> calls w' = calls w @ [BasicAck (delivery_tag method)]"
proof -
  have pm: "\<And>m v r' v'. process_message self m v = (r', v') \<Longrightarrow> calls v' = calls v"
    using process_message_no_calls by (metis snd_conv)
  assume "handle_body loads B self method msg_id body w = (r, w')"
  then show ?thesis
    by (auto simp add: handle_body_def bind_def decode_payload_def lift_def raise_def ret_def
        log_message_received_def log_message_processed_def info_def logger_log_benign
        reserved_keys_def dict_get_def call_def
        split: prod.splits sum.splits if_splits json.splits option.splits dest!: pm)
qed

lemma handle_body_json_error:
  assumes "handle_body loads B self method msg_id body w = (Inl e, w')"
    and "exn_class e = JSONDecodeError"
    and "\<And>cs c x. reaction B cs c = Some x \<Longrightarrow> exn_class x \<noteq> JSONDecodeError"
  shows "calls w' = calls w"
proof -
  have pm: "\<And>m v r' v'. process_message self m v = (r', v') \<Longrightarrow> calls v' = calls v"
    using process_message_no_calls by (metis snd_conv)
  show ?thesis using assms(1,2)
    by (auto simp add: handle_body_def bind_def decode_payload_def lift_def raise_def ret_def
        log_message_received_def log_message_processed_def info_def logger_log_benign
        reserved_keys_def dict_get_def call_def
        split: prod.splits sum.splits if_splits json.splits option.splits
        dest!: pm process_message_raises assms(3))
qed

section \<open>The consumer's acknowledgments\<close>

text \<open>
  A payload that \<^verbatim>\<open>json.loads\<close> rejects with \<^verbatim>\<open>JSONDecodeError\<close> is nacked without requeue, and
  that is the only call made for it.
\<close>

lemma json_decode_error_is_discarded:
  assumes "utf8_valid body" "loads body = Inl e" "exn_class e = JSONDecodeError"
  shows "new_calls w (snd (snd (handle_message loads B self method props body w)))
           = [BasicNack (delivery_tag method) False]"
  using assms
  by (simp add: handle_message_def handle_body_def decode_payload_def Let_def try_except_def
      bind_def lift_def handle_except_json call_def new_calls_def split: option.splits)

text \<open>
  As long as the broker's own errors are not \<^verbatim>\<open>JSONDecodeError\<close>s, no delivery gets more than
  one acknowledgment call.
\<close>

lemma at_most_one_outcome:
  assumes "\<And>cs c x. reaction B cs c = Some x \<Longrightarrow> exn_class x \<noteq> JSONDecodeError"
  shows "length (outcomes (delivery_tag method)
     (new_calls w (snd (snd (handle_message loads B self method props body w))))) \<le> 1"
proof -
  let ?self = "self\<lparr>message_count := message_count self + 1\<rparr>"
  obtain r w1 where b: "handle_body loads B ?self method (received_id ?self props) body w = (r, w1)"
    by (cases "handle_body loads B ?self method (received_id ?self props) body w") auto
  have c1: "calls w1 = calls w \<or> calls w1 = calls w @ [BasicAck (delivery_tag method)]"
    using handle_body_calls [OF b] .
  show ?thesis
  proof (cases r)
    case (Inr u)
    then show ?thesis using b c1
      by (auto simp add: handle_message_def Let_def try_except_def new_calls_def)
  next
    case (Inl e)
    have "exn_class e = JSONDecodeError \<Longrightarrow> calls w1 = calls w"
      using handle_body_json_error [OF b [unfolded Inl] _ assms] by simp
    then show ?thesis using b c1 Inl
      by (auto simp add: handle_message_def Let_def try_except_def new_calls_def handle_except_calls)
  qed
qed

text \<open>
  Claim C1 (the code departs from it). A body that is not valid UTF-8, such as the single
  byte \<^verbatim>\<open>0xFF\<close>, fails to decode with \<^verbatim>\<open>UnicodeDecodeError\<close>, which the clause for
  \<^verbatim>\<open>json.JSONDecodeError\<close> does not catch. Whatever \<^verbatim>\<open>json.loads\<close> and the broker would do,
  \<open>handle_message\<close> then raises \<^verbatim>\<open>TypeError\<close> out of the general clause and makes no call at
  all for the delivery: there is no nack without requeue.
\<close>

theorem invalid_utf8_is_not_discarded:
  "snd (handle_message loads B self method props [0xFF] w) =
     (Inl (Exn TypeError ''UnicodeDecodeError object is not callable''),
      w\<lparr>logs := logs w @ [(ERROR, ''Failed to process message: invalid utf-8'')]\<rparr>)
   \<and> outcomes (delivery_tag method)
        (new_calls w (snd (snd (handle_message loads B self method props [0xFF] w)))) = []"
  by (simp add: handle_message_def handle_body_def handle_except_def decode_payload_def
      log_message_failed_def new_calls_def Let_def eff_defs in_range_def)

text \<open>
  Claim C2 (the code departs from it). The backup message arrives as the fifth delivery and
  the handler fails: at the default level \<^verbatim>\<open>INFO\<close> with the \<^verbatim>\<open>KeyError\<close> of its first logging call,
  at the level \<^verbatim>\<open>WARNING\<close> with its simulated failure. On the first delivery (\<open>redelivered\<close>
  false) the claim asks for a nack with requeue, on the redelivery for a nack without: in
  all four cases \<open>handle_message\<close> raises \<^verbatim>\<open>TypeError\<close> from \<open>log_message_failed\<close> and has made no
  call.
\<close>

theorem failed_handler_is_not_nacked:
  "snd (handle_message loads_sample reliable_broker (init_consumer\<lparr>message_count := 4\<rparr>)
          (first_delivery 5) no_properties backup_body empty_world) =
     (Inl (Exn TypeError ''KeyError object is not callable''),
      \<lparr>calls = [], log_level = INFO,
       logs = [(INFO, ''Message received''), (INFO, ''Message received''),
               (ERROR, ''Failed to process message: Attempt to overwrite message in LogRecord'')]\<rparr>)
   \<and> snd (handle_message loads_sample reliable_broker (init_consumer\<lparr>message_count := 4\<rparr>)
          (second_delivery 5) no_properties backup_body empty_world) =
     (Inl (Exn TypeError ''KeyError object is not callable''),
      \<lparr>calls = [], log_level = INFO,
       logs = [(INFO, ''Message received''), (INFO, ''Message received''),
               (ERROR, ''Failed to process message: Attempt to overwrite message in LogRecord'')]\<rparr>)
   \<and> snd (handle_message loads_sample reliable_broker (init_consumer\<lparr>message_count := 4\<rparr>)
          (first_delivery 5) no_properties backup_body quiet_world) =
     (Inl (Exn TypeError ''Exception object is not callable''),
      \<lparr>calls = [], log_level = WARNING,
       logs = [(INFO, ''Message received''), (INFO, ''Message received''),
               (INFO, ''Processing message''),
               (ERROR, ''Failed to process message: Simulated backup failure'')]\<rparr>)
   \<and> snd (handle_message loads_sample reliable_broker (init_consumer\<lparr>message_count := 4\<rparr>)
          (second_delivery 5) no_properties backup_body quiet_world) =
     (Inl (Exn TypeError ''Exception object is not callable''),
      \<lparr>calls = [], log_level = WARNING,
       logs = [(INFO, ''Message received''), (INFO, ''Message received''),
               (INFO, ''Processing message''),
               (ERROR, ''Failed to process message: Simulated backup failure'')]\<rparr>)"
  by code_simp

text \<open>
  Claim C3 (the code departs from it). Whenever the body of the \<^verbatim>\<open>try\<close> statement raises
  anything but \<^verbatim>\<open>JSONDecodeError\<close>, \<open>handle_message\<close> raises \<^verbatim>\<open>TypeError\<close> and the world is the
  one the body left, with one more log line: no nack is added, so a delivery whose handler
  failed ends with no acknowledgment at all.
\<close>

theorem failing_body_leaves_no_outcome:
  assumes "handle_body loads B (self\<lparr>message_count := message_count self + 1\<rparr>) method
             (received_id (self\<lparr>message_count := message_count self + 1\<rparr>) props) body w
           = (Inl e, w1)"
    and "exn_class e \<noteq> JSONDecodeError"
  shows "snd (handle_message loads B self method props body w) =
     (Inl (Exn TypeError (class_name (exn_class e) @ '' object is not callable'')),
      w1\<lparr>logs := logs w1 @ [(ERROR, ''Failed to process message: '' @ exn_text e)]\<rparr>)"
  using assms by (simp add: handle_message_def Let_def try_except_def handle_except_generic)

theorem failing_body_leaves_no_outcome_witness:
  "outcomes 10 (calls (snd (snd (handle_message loads_sample reliable_broker
      (init_consumer\<lparr>message_count := 9\<rparr>) (second_delivery 10) no_properties backup_body
      quiet_world)))) = []
   \<and> fst (snd (handle_message loads_sample reliable_broker
      (init_consumer\<lparr>message_count := 9\<rparr>) (second_delivery 10) no_properties backup_body
      quiet_world)) = Inl (Exn TypeError ''Exception object is not callable'')"
proof -
  let ?self = "init_consumer\<lparr>message_count := 9\<rparr>"
  let ?w1 = "\<lparr>calls = [], log_level = WARNING,
             logs = [(INFO, ''Message received''), (INFO, ''Message received''),
               (INFO, ''Processing message'')]\<rparr>"
  have b: "handle_body loads_sample reliable_broker
             (?self\<lparr>message_count := message_count ?self + 1\<rparr>) (second_delivery 10)
             (received_id (?self\<lparr>message_count := message_count ?self + 1\<rparr>) no_properties)
             backup_body quiet_world = (Inl (Exn Exception ''Simulated backup failure''), ?w1)"
    by code_simp
  have c: "exn_class (Exn Exception ''Simulated backup failure'') \<noteq> JSONDecodeError"
    by simp
  show ?thesis
    using failing_body_leaves_no_outcome [OF b c] by simp
qed

section \<open>The simulated fault\<close>

text \<open>
  While the level \<^verbatim>\<open>INFO\<close> is enabled, as it is by default, \<open>process_message\<close> raises the
  \<^verbatim>\<open>KeyError\<close> of its first logging call on the backup message, whatever the count is.
\<close>

lemma backup_message_key_error:
  "is_enabled_for INFO w \<Longrightarrow>
   process_message self backup_message w
     = (Inl (Exn KeyError ''Attempt to overwrite message in LogRecord''), w)"
  by (simp add: process_message_def backup_message_def dict_get_def hash_key_def eff_defs)

text \<open>At that level \<open>process_message\<close> returns for no payload at all.\<close>

lemma process_message_raises_at_info:
  "is_enabled_for INFO w \<Longrightarrow> \<exists>e. fst (process_message self m w) = Inl e"
  by (simp add: process_message_def dict_get_def hash_key_def eff_defs
      split: json.splits option.splits)

text \<open>
  With that level disabled, the backup message fails exactly when the count of all deliveries
  is a multiple of 5.
\<close>

lemma backup_message_fails_iff:
  "\<not> is_enabled_for INFO w \<Longrightarrow>
   fst (process_message self backup_message w) =
     (if message_count self mod 5 = 0 then Inl (Exn Exception ''Simulated backup failure'')
      else Inr ())"
  by (simp add: process_message_def backup_message_def dict_get_def hash_key_def str_lower_def
      str_capitalize_def lower_char_def eff_defs)

text \<open>
  Claim C5 (the code departs from it). At the default level \<^verbatim>\<open>INFO\<close> the fifth of five backup
  messages does not raise the simulated failure: like every message, it raises the
  \<^verbatim>\<open>KeyError\<close> of the first logging call of \<open>process_message\<close>. At the level \<^verbatim>\<open>WARNING\<close> the
  counter that is tested is \<open>message_count\<close>, which \<open>handle_message\<close> advances on every
  delivery, not a count of backup messages: after four greetings the first backup message is
  the fifth delivery and fails; after four backup messages and a greeting the fifth backup
  message is the sixth delivery and is processed.
\<close>

theorem backup_failure_follows_delivery_count:
  "(let cw = foldl (after_delivery loads_sample reliable_broker) (init_consumer, empty_world)
              [backup_delivery 1, backup_delivery 2, backup_delivery 3, backup_delivery 4];
        self = (fst cw)\<lparr>message_count := message_count (fst cw) + 1\<rparr>
    in fst (process_message self backup_message (snd cw)))
     = Inl (Exn KeyError ''Attempt to overwrite message in LogRecord'')
   \<and>
   (let cw = foldl (after_delivery loads_sample reliable_broker) (init_consumer, quiet_world)
              [greeting_delivery 1, greeting_delivery 2, greeting_delivery 3, greeting_delivery 4];
        self = (fst cw)\<lparr>message_count := message_count (fst cw) + 1\<rparr>
    in fst (process_message self backup_message (snd cw)))
     = Inl (Exn Exception ''Simulated backup failure'')
   \<and>
   (let cw = foldl (after_delivery loads_sample reliable_broker) (init_consumer, quiet_world)
              [backup_delivery 1, backup_delivery 2, backup_delivery 3, backup_delivery 4,
               greeting_delivery 5];
        self = (fst cw)\<lparr>message_count := message_count (fst cw) + 1\<rparr>
    in fst (process_message self backup_message (snd cw)))
     = Inr ()"
  by code_simp

section \<open>Counting deliveries\<close>

lemma handle_message_counts:
  "message_count (fst (handle_message loads B self method props body w)) = message_count self + 1"
  by (simp add: handle_message_def Let_def)

lemma after_delivery_counts:
  "message_count (fst (after_delivery loads B cw d)) = message_count (fst cw) + 1"
  using handle_message_counts [of loads B "fst cw" "d_method d" "d_properties d" "d_body d" "snd cw"]
  by (auto simp add: after_delivery_def split: prod.splits)

lemma foldl_after_delivery_counts:
  "message_count (fst (foldl (after_delivery loads B) cw ds))
     = message_count (fst cw) + int (length ds)"
  by (induction ds arbitrary: cw) (simp_all add: after_delivery_counts)

text \<open>
  Claim C10. Each call of \<open>handle_message\<close> advances \<open>message_count\<close> by one, whatever the
  payload, the redelivery flag, the broker's answers and the way the call ends; so after any
  list of deliveries to a new consumer \<open>get_stats\<close> reports their number as
  \<open>messages_processed\<close>.
\<close>

theorem message_count_counts_deliveries:
  "message_count (fst (handle_message loads B self method props body w)) = message_count self + 1
   \<and> messages_processed
         (get_stats (fst (foldl (after_delivery loads B) (init_consumer, w) ds)))
       = int (length ds)"
  by (simp add: handle_message_counts foldl_after_delivery_counts get_stats_def init_consumer_def)

theorem message_count_counts_deliveries_witness:
  "messages_processed (get_stats (fst (foldl (after_delivery loads_sample reliable_broker)
      (init_consumer, empty_world)
      [greeting_delivery 1,
       \<lparr>d_method = first_delivery 2, d_properties = no_properties, d_body = [0x7B]\<rparr>,
       \<lparr>d_method = second_delivery 2, d_properties = no_properties, d_body = [0xFF]\<rparr>]))) = 3
   \<and> calls (snd (foldl (after_delivery loads_sample reliable_broker)
      (init_consumer, empty_world)
      [greeting_delivery 1,
       \<lparr>d_method = first_delivery 2, d_properties = no_properties, d_body = [0x7B]\<rparr>,
       \<lparr>d_method = second_delivery 2, d_properties = no_properties, d_body = [0xFF]\<rparr>]))
     = [BasicNack 2 False]"
proof -
  have c: "calls (snd (foldl (after_delivery loads_sample reliable_broker)
      (init_consumer, empty_world)
      [greeting_delivery 1,
       \<lparr>d_method = first_delivery 2, d_properties = no_properties, d_body = [0x7B]\<rparr>,
       \<lparr>d_method = second_delivery 2, d_properties = no_properties, d_body = [0xFF]\<rparr>]))
     = [BasicNack 2 False]"
    by code_simp
  show ?thesis
    using message_count_counts_deliveries [of loads_sample reliable_broker init_consumer
        "first_delivery 1" no_properties greeting_body empty_world
        "[greeting_delivery 1,
          \<lparr>d_method = first_delivery 2, d_properties = no_properties, d_body = [0x7B]\<rparr>,
          \<lparr>d_method = second_delivery 2, d_properties = no_properties, d_body = [0xFF]\<rparr>]"] c
    by simp
qed

section \<open>Shutdown\<close>

lemma consumer_close_returns: "fst (consumer_close B self w) = Inr ()"
  by (simp add: consumer_close_def eff_defs split: option.splits sum.splits prod.splits)

lemma producer_close_returns: "fst (producer_close B self w) = Inr ()"
  by (simp add: producer_close_def eff_defs split: option.splits sum.splits prod.splits)

lemma consumer_close_logs: "\<exists>l. logs (snd (consumer_close B self w)) = logs w @ [l]"
  by (simp add: consumer_close_def eff_defs split: option.splits sum.splits prod.splits)

lemma producer_close_logs: "\<exists>l. logs (snd (producer_close B self w)) = logs w @ [l]"
  by (simp add: producer_close_def eff_defs split: option.splits sum.splits prod.splits)

text \<open>
  Claim C9. \<open>close\<close> of the consumer, of the basic producer and of the topic producer returns
  normally for every broker behaviour, every state of the object (with or without channel and
  connection) and every world, hence also when it is called again after a first \<open>close\<close>; and
  each call adds exactly one line to the log, the success message or the error caught.
\<close>

theorem close_never_raises:
  "fst (consumer_close B c w) = Inr ()
   \<and> fst (consumer_close B c (snd (consumer_close B c w))) = Inr ()
   \<and> fst (producer_close B (p :: basic_client) w) = Inr ()
   \<and> fst (producer_close B p (snd (producer_close B p w))) = Inr ()
   \<and> fst (producer_close B (tp :: topic_producer) w) = Inr ()
   \<and> fst (producer_close B tp (snd (producer_close B tp w))) = Inr ()
   \<and> (\<exists>l. logs (snd (consumer_close B c w)) = logs w @ [l])
   \<and> (\<exists>l. logs (snd (producer_close B p w)) = logs w @ [l])
   \<and> (\<exists>l. logs (snd (producer_close B tp w)) = logs w @ [l])"
  by (intro conjI consumer_close_returns producer_close_returns
      consumer_close_logs producer_close_logs)

theorem close_never_raises_witness:
  "consumer_close lost_broker connected_consumer empty_world =
     (Inr (), \<lparr>calls = [StopConsuming], log_level = INFO,
               logs = [(ERROR, ''Error closing connection: Connection lost'')]\<rparr>)
   \<and> producer_close lost_broker connected_producer empty_world =
     (Inr (), \<lparr>calls = [ChannelClose], log_level = INFO,
               logs = [(ERROR, ''Error closing connection: Connection lost'')]\<rparr>)
   \<and> consumer_close reliable_broker init_consumer empty_world =
     (Inr (), \<lparr>calls = [], log_level = INFO,
               logs = [(INFO, ''Connection closed successfully'')]\<rparr>)
   \<and> fst (producer_close reliable_broker connected_producer
          (snd (producer_close reliable_broker connected_producer empty_world))) = Inr ()"
proof -
  have a: "consumer_close lost_broker connected_consumer empty_world =
     (Inr (), \<lparr>calls = [StopConsuming], log_level = INFO,
               logs = [(ERROR, ''Error closing connection: Connection lost'')]\<rparr>)"
    by code_simp
  have b: "producer_close lost_broker connected_producer empty_world =
     (Inr (), \<lparr>calls = [ChannelClose], log_level = INFO,
               logs = [(ERROR, ''Error closing connection: Connection lost'')]\<rparr>)"
    by code_simp
  have c: "consumer_close reliable_broker init_consumer empty_world =
     (Inr (), \<lparr>calls = [], log_level = INFO,
               logs = [(INFO, ''Connection closed successfully'')]\<rparr>)"
    by code_simp
  show ?thesis
    using close_never_raises [of reliable_broker init_consumer empty_world connected_producer]
      a b c by simp
qed

text \<open>
  Claim C4, as stated, fails: \<open>stop\<close> on a connected consumer asks the channel to stop
  consuming and makes no other call, so neither the channel nor the connection is closed
  when it returns.
\<close>

theorem stop_does_not_close:
  "\<not> (ConnectionClose
         \<in> set (calls (snd (snd (stop reliable_broker connected_consumer empty_world))))
      \<or> ChannelClose
         \<in> set (calls (snd (snd (stop reliable_broker connected_consumer empty_world))))
      \<or> is_closed reliable_broker
           (calls (snd (snd (stop reliable_broker connected_consumer empty_world)))))"
  by code_simp

text \<open>
  Claim C4, amended. \<open>stop\<close> clears \<open>running\<close> and, when there is a channel, calls
  \<open>stop_consuming\<close> on it, and that is the only call it makes; closing is the work of
  \<open>close\<close>, which on a connected consumer whose \<open>stop_consuming\<close> returns and whose connection
  is still open calls \<open>stop_consuming\<close> and then closes the connection.
\<close>

theorem stop_then_close:
  "running (fst (stop B self w)) = False
   \<and> new_calls w (snd (snd (stop B self w)))
       = (if channel self = None then [] else [StopConsuming])
   \<and> (channel self \<noteq> None \<and> connection self \<noteq> None
        \<and> reaction B (calls w) StopConsuming = None
        \<and> \<not> is_closed B (calls w @ [StopConsuming])
      \<longrightarrow> new_calls w (snd (consumer_close B self w)) = [StopConsuming, ConnectionClose])"
  by (auto simp add: stop_def consumer_close_def Let_def new_calls_def eff_defs
      split: option.splits)

theorem stop_then_close_witness:
  "running (fst (stop reliable_broker connected_consumer empty_world)) = False
   \<and> calls (snd (snd (stop reliable_broker connected_consumer empty_world))) = [StopConsuming]
   \<and> calls (snd (consumer_close reliable_broker connected_consumer empty_world))
       = [StopConsuming, ConnectionClose]"
proof -
  have h: "channel connected_consumer \<noteq> None \<and> connection connected_consumer \<noteq> None
        \<and> reaction reliable_broker (calls empty_world) StopConsuming = None
        \<and> \<not> is_closed reliable_broker (calls empty_world @ [StopConsuming])"
    by (simp add: connected_consumer_def init_consumer_def reliable_broker_def empty_world_def)
  show ?thesis
    using stop_then_close [of reliable_broker connected_consumer empty_world] h
    by (simp add: new_calls_def empty_world_def connected_consumer_def init_consumer_def)
qed

section \<open>Publishing\<close>

text \<open>
  Claim C6. When the broker's answer to the publish call of \<open>send_message\<close> is an error,
  \<open>send_message\<close> raises that very error to its caller; it has made the one publish call and
  no other, and has logged the failure. This holds for the basic producer and, on its own,
  for the topic producer.
\<close>

theorem publish_failure_is_surfaced:
  "(channel self \<noteq> None \<and> dumps message = Inr message_body
      \<and> reaction B (calls w)
           (BasicPublish [] (queue_name self) message_body
              (new_properties ''msg'' hash now now' message_body msg_id)) = Some e
    \<longrightarrow> send_message dumps hash B self now now' message msg_id w =
           (Inl e,
            w\<lparr>calls := calls w @ [BasicPublish [] (queue_name self) message_body
                                     (new_properties ''msg'' hash now now' message_body msg_id)],
              logs := logs w @ [(ERROR, ''Failed to send message: '' @ exn_text e)]\<rparr>))
   \<and> (channel tself \<noteq> None \<and> tdumps tmessage = Inr tmessage_body
      \<and> reaction tB (calls tw)
           (BasicPublish (exchange_name tself) routing_key tmessage_body
              (new_properties ''topic'' thash tnow tnow' tmessage_body tmsg_id)) = Some e'
    \<longrightarrow> topic_send_message tdumps thash tB tself tnow tnow' routing_key tmessage tmsg_id tw =
           (Inl e',
            tw\<lparr>calls := calls tw @ [BasicPublish (exchange_name tself) routing_key tmessage_body
                                     (new_properties ''topic'' thash tnow tnow' tmessage_body tmsg_id)],
               logs := logs tw @ [(ERROR, ''Failed to send message: '' @ exn_text e')]\<rparr>))"
  by (auto simp add: send_message_def topic_send_message_def Let_def eff_defs)

theorem publish_failure_is_surfaced_witness:
  "send_message dumps_sample hash_sample refusing_broker connected_producer 1700000000 1700000000
       greeting_message None empty_world =
     (Inl (Exn OtherError ''Publish refused''),
      \<lparr>calls = [BasicPublish [] ''python_basic_queue'' greeting_text
                  \<lparr>delivery_mode = Some 2, timestamp = Some 1700000000,
                   message_id = Some ''msg-1700000000-760''\<rparr>],
       log_level = INFO,
       logs = [(ERROR, ''Failed to send message: Publish refused'')]\<rparr>)
   \<and> topic_send_message dumps_sample hash_sample lost_broker connected_topic_producer
       1700000000 1700000000 ''user.create.account'' greeting_message
       (Some ''event-user-create'') empty_world =
     (Inl (Exn OtherError ''Connection lost''),
      \<lparr>calls = [BasicPublish ''python_topic_exchange'' ''user.create.account'' greeting_text
                  \<lparr>delivery_mode = Some 2, timestamp = Some 1700000000,
                   message_id = Some ''event-user-create''\<rparr>],
       log_level = INFO,
       logs = [(ERROR, ''Failed to send message: Connection lost'')]\<rparr>)"
proof -
  have a1: "channel connected_producer \<noteq> None"
    by (simp add: connected_producer_def)
  have a2: "channel connected_topic_producer \<noteq> None"
    by (simp add: connected_topic_producer_def)
  have a3: "dumps_sample greeting_message = Inr greeting_text"
    by (simp add: dumps_sample_def greeting_message_def backup_message_def)
  have i: "publish_id ''msg'' hash_sample 1700000000 greeting_text None = ''msg-1700000000-760''"
    by code_simp
  have r1: "reaction refusing_broker (calls empty_world)
              (BasicPublish [] (queue_name connected_producer) greeting_text
                 (new_properties ''msg'' hash_sample 1700000000 1700000000 greeting_text None))
            = Some (Exn OtherError ''Publish refused'')"
    by (simp add: refusing_broker_def)
  have r2: "\<And>c. reaction lost_broker (calls empty_world) c
             = Some (Exn OtherError ''Connection lost'')"
    by (simp add: lost_broker_def)
  show ?thesis
    using publish_failure_is_surfaced [where self = connected_producer
          and dumps = dumps_sample and message = greeting_message
          and message_body = greeting_text and B = refusing_broker and w = empty_world
          and e = "Exn OtherError ''Publish refused''"
          and now = 1700000000 and hash = hash_sample and now' = 1700000000 and msg_id = None
          and tself = connected_topic_producer and tdumps = dumps_sample
          and tmessage = greeting_message and tmessage_body = greeting_text
          and tB = lost_broker and tw = empty_world
          and e' = "Exn OtherError ''Connection lost''"
          and tnow = 1700000000 and thash = hash_sample and tnow' = 1700000000
          and tmsg_id = "Some ''event-user-create''" and routing_key = "''user.create.account''"]
      a1 a2 a3 r1 r2 i
    by (simp add: empty_world_def connected_producer_def new_properties_def
        connected_topic_producer_def publish_id_def)
qed

lemma new_properties_ok:
  "wire_properties_ok now msg_id (new_properties prefix hash now now' body msg_id)"
  by (simp add: wire_properties_ok_def new_properties_def publish_id_def Let_def
      split: option.splits)

lemma send_message_calls:
  "new_calls w (snd (send_message dumps hash B self now now' message msg_id w)) =
    (if channel self = None then []
     else case dumps message of
            Inl e \<Rightarrow> []
          | Inr message_body \<Rightarrow>
              [BasicPublish [] (queue_name self) message_body
                 (new_properties ''msg'' hash now now' message_body msg_id)])"
  by (simp add: send_message_def Let_def new_calls_def eff_defs log_message_sent_def
      split: option.splits sum.splits)

lemma topic_send_message_calls:
  "new_calls w (snd (topic_send_message dumps hash B self now now' routing_key message msg_id w)) =
    (if channel self = None then []
     else case dumps message of
            Inl e \<Rightarrow> []
          | Inr message_body \<Rightarrow>
              [BasicPublish (exchange_name self) routing_key message_body
                 (new_properties ''topic'' hash now now' message_body msg_id)])"
  by (simp add: topic_send_message_def Let_def new_calls_def eff_defs log_message_sent_def
      split: option.splits sum.splits)

text \<open>
  Claim C7. Every publish call that \<open>send_message\<close> of the basic or of the topic producer
  makes carries \<open>delivery_mode\<close> 2, the timestamp read from the clock at the call, and a
  non-empty \<open>message_id\<close>: the caller's when the caller gave a non-empty one, a generated one
  otherwise.
\<close>

theorem published_properties_ok:
  "list_all (wire_properties_ok now msg_id)
     (published (new_calls w (snd (send_message dumps hash B self now now' message msg_id w))))
   \<and> list_all (wire_properties_ok now msg_id)
     (published (new_calls w
        (snd (topic_send_message dumps hash B tself now now' routing_key message msg_id w))))"
  by (simp add: send_message_calls topic_send_message_calls new_properties_ok split: sum.splits)

theorem published_properties_ok_witness:
  "published (calls (snd (send_message dumps_sample hash_sample reliable_broker connected_producer
      1700000000 1700000001 backup_message None empty_world)))
     = [\<lparr>delivery_mode = Some 2, timestamp = Some 1700000000,
         message_id = Some ''msg-1700000001-31''\<rparr>]
   \<and> wire_properties_ok 1700000000 None
       \<lparr>delivery_mode = Some 2, timestamp = Some 1700000000,
        message_id = Some ''msg-1700000001-31''\<rparr>
   \<and> published (calls (snd (topic_send_message dumps_sample hash_sample reliable_broker
      connected_topic_producer 1700000000 1700000001 ''system.backup.daily'' backup_message
      (Some ''event-system-backup'') empty_world)))
     = [\<lparr>delivery_mode = Some 2, timestamp = Some 1700000000,
         message_id = Some ''event-system-backup''\<rparr>]
   \<and> wire_properties_ok 1700000000 (Some ''event-system-backup'')
       \<lparr>delivery_mode = Some 2, timestamp = Some 1700000000,
        message_id = Some ''event-system-backup''\<rparr>"
proof -
  have s1: "published (calls (snd (send_message dumps_sample hash_sample reliable_broker
      connected_producer 1700000000 1700000001 backup_message None empty_world)))
     = [\<lparr>delivery_mode = Some 2, timestamp = Some 1700000000,
         message_id = Some ''msg-1700000001-31''\<rparr>]"
    by code_simp
  have s2: "published (calls (snd (topic_send_message dumps_sample hash_sample reliable_broker
      connected_topic_producer 1700000000 1700000001 ''system.backup.daily'' backup_message
      (Some ''event-system-backup'') empty_world)))
     = [\<lparr>delivery_mode = Some 2, timestamp = Some 1700000000,
         message_id = Some ''event-system-backup''\<rparr>]"
    by code_simp
  have e: "new_calls empty_world = calls"
    by (rule ext) (simp add: new_calls_def empty_world_def)
  show ?thesis
    using published_properties_ok [where w = empty_world and dumps = dumps_sample
        and hash = hash_sample and B = reliable_broker and self = connected_producer
        and now = 1700000000 and now' = 1700000001 and message = backup_message
        and msg_id = None and tself = connected_topic_producer
        and routing_key = "''system.backup.daily''"]
      published_properties_ok [where w = empty_world and dumps = dumps_sample
        and hash = hash_sample and B = reliable_broker and self = connected_producer
        and now = 1700000000 and now' = 1700000001 and message = backup_message
        and msg_id = "Some ''event-system-backup''" and tself = connected_topic_producer
        and routing_key = "''system.backup.daily''"]
      s1 s2
    by (simp add: e)
qed

section \<open>Properties of the matcher\<close>

lemma match_segments_literals:
  "list_all is_literal p \<Longrightarrow> match_segments p ks = (p = map Lit ks)"
proof (induction p arbitrary: ks)
  case Nil
  show ?case by auto
next
  case (Cons a p)
  then obtain s where a: "a = Lit s" and rest: "list_all is_literal p"
    by (cases a) auto
  show ?case
  proof (cases ks)
    case Nil
    then show ?thesis using a by simp
  next
    case (Cons k ks')
    then show ?thesis using a Cons.IH [OF rest, of ks'] by auto
  qed
qed

text \<open>
  Claim C8. A pattern without wildcards matches a key exactly when the pattern is, segment
  for segment, the list of the key's segments obtained by splitting the key on dots.
\<close>

theorem matches_literal_only_iff:
  "literal_only pattern \<Longrightarrow> matches pattern key = (pattern = map Lit (split_key key))"
  unfolding literal_only_def matches_def by (rule match_segments_literals)

theorem matches_literal_only_iff_witness:
  "literal_only [Lit ''user'', Lit ''login''] \<and>
   matches [Lit ''user'', Lit ''login''] ''user.login'' \<and>
   \<not> matches [Lit ''user'', Lit ''login''] ''user.logout''"
proof -
  have h: "literal_only [Lit ''user'', Lit ''login'']"
    by (simp add: literal_only_def)
  have k1: "split_key ''user.login'' = [''user'', ''login'']"
    by (simp add: split_key_def)
  have k2: "split_key ''user.logout'' = [''user'', ''logout'']"
    by (simp add: split_key_def)
  show ?thesis
    using h matches_literal_only_iff [OF h, of "''user.login''"]
      matches_literal_only_iff [OF h, of "''user.logout''"] k1 k2
    by simp
qed

end
